theory Spec2Isabelle
  imports Complex_Main "HOL-Library.Sublist" "HOL-Library.AList"
begin

section \<open>Python values used by the services\<close>

text \<open>
  A Python \<^verbatim>\<open>str\<close> is a sequence of Unicode code points; it is modelled as a list of
  code point numbers, so that the Cyrillic names of the catalogue are ordinary data.
  The comment beside each string constant is a Latin transliteration.
\<close>

type_synonym pystr = "nat list"

named_theorems catalogue \<open>defining equations of the built-in sample data\<close>

text \<open>
  \<^verbatim>\<open>str.lower()\<close>, restricted to the alphabets the catalogue is written in: Basic Latin
  (A-Z) and the Cyrillic block (U+0400-U+042F). Every other code point is left unchanged;
  the case mappings of other scripts are not modelled.
\<close>

definition lower_cp :: "nat \<Rightarrow> nat" where
  "lower_cp c =
     (if 65 \<le> c \<and> c \<le> 90 then c + 32
      else if 1040 \<le> c \<and> c \<le> 1071 then c + 32
      else if 1024 \<le> c \<and> c \<le> 1039 then c + 80
      else c)"

definition str_lower :: "pystr \<Rightarrow> pystr" where
  "str_lower s = map lower_cp s"

text \<open>The code points \<^verbatim>\<open>str.strip()\<close> removes (those for which \<^verbatim>\<open>str.isspace()\<close> holds).\<close>

definition is_space :: "nat \<Rightarrow> bool" where
  "is_space c =
     ((9 \<le> c \<and> c \<le> 13) \<or> (28 \<le> c \<and> c \<le> 32) \<or> c = 133 \<or> c = 160 \<or> c = 5760
      \<or> (8192 \<le> c \<and> c \<le> 8202) \<or> c = 8232 \<or> c = 8233 \<or> c = 8239 \<or> c = 8287
      \<or> c = 12288)"

definition str_strip :: "pystr \<Rightarrow> pystr" where
  "str_strip s = rev (dropWhile is_space (rev (dropWhile is_space s)))"

text \<open>\<^verbatim>\<open>a in b\<close> on strings: \<open>a\<close> occurs in \<open>b\<close> as a contiguous block.\<close>

fun str_in :: "'a list \<Rightarrow> 'a list \<Rightarrow> bool" where
  "str_in xs [] = (xs = [])"
| "str_in xs (y # ys) = (prefix xs (y # ys) \<or> str_in xs ys)"

text \<open>
  The slice \<^verbatim>\<open>xs[:n]\<close> for a Python \<^verbatim>\<open>int\<close> \<open>n\<close>: a negative bound counts from the end,
  so \<^verbatim>\<open>xs[:-k]\<close> drops the last \<open>k\<close> elements.
\<close>

definition slice_to :: "int \<Rightarrow> 'a list \<Rightarrow> 'a list" where
  "slice_to n xs =
     (if 0 \<le> n then take (nat n) xs else take (length xs - nat (- n)) xs)"

section \<open>Configuration (\<^verbatim>\<open>config.py\<close>)\<close>

record settings =
  max_recipe_results :: int
  max_shops_results :: int
  daily_purines_limit :: int
  max_glycemic_index :: int

definition default_settings :: settings where
  "default_settings = \<lparr>
     max_recipe_results = 10,
     max_shops_results = 5,
     daily_purines_limit = 200,
     max_glycemic_index = 55\<rparr>"

section \<open>Recipes (\<^verbatim>\<open>services/recipe_service.py\<close>)\<close>

text \<open>
  The recipe dictionaries of the catalogue carry every key, so a recipe is a record and
  the defaults of \<^verbatim>\<open>recipe.get(key, default)\<close> are never taken. The key \<^verbatim>\<open>id\<close> is the field
  \<open>recipe_id\<close>. The fields that only the display formatter reads (description, nutrition
  facts, cooking time, servings, instructions) are left out.
\<close>

record ingredient =
  ing_name :: pystr
  amount :: real
  ing_unit :: pystr

record recipe =
  recipe_id :: pystr
  name :: pystr
  glycemic_index :: int
  purines :: real
  suitable_for_diabetes :: bool
  suitable_for_gout :: bool
  suitable_for_celiac :: bool
  category :: pystr
  ingredients :: "ingredient list"

text \<open>
  \<^verbatim>\<open>RecipeService._filter_by_diagnosis\<close>: the loop over the recipes, each
  \<^verbatim>\<open>continue\<close> skipping the recipe and the final \<^verbatim>\<open>append\<close> keeping it.
\<close>

fun filter_by_diagnosis ::
  "settings \<Rightarrow> recipe list \<Rightarrow> bool \<Rightarrow> bool \<Rightarrow> bool \<Rightarrow> recipe list" where
  "filter_by_diagnosis cfg [] has_diabetes has_gout has_celiac = []"
| "filter_by_diagnosis cfg (r # rs) has_diabetes has_gout has_celiac =
     (if has_diabetes \<and> glycemic_index r > max_glycemic_index cfg
        then filter_by_diagnosis cfg rs has_diabetes has_gout has_celiac
      else if has_gout \<and> purines r > 100
        then filter_by_diagnosis cfg rs has_diabetes has_gout has_celiac
      else if has_celiac \<and> \<not> suitable_for_celiac r
        then filter_by_diagnosis cfg rs has_diabetes has_gout has_celiac
      else r # filter_by_diagnosis cfg rs has_diabetes has_gout has_celiac)"

text \<open>The inner loop of \<^verbatim>\<open>search_recipes\<close> over the ingredients, left by \<^verbatim>\<open>break\<close>.\<close>

fun ingredient_matches :: "pystr \<Rightarrow> ingredient list \<Rightarrow> bool" where
  "ingredient_matches query_lower [] = False"
| "ingredient_matches query_lower (i # is) =
     (if str_in query_lower (str_lower (ing_name i)) then True
      else ingredient_matches query_lower is)"

text \<open>The outer loop of \<^verbatim>\<open>search_recipes\<close>, collecting \<^verbatim>\<open>matching_recipes\<close>.\<close>

fun matching_recipes :: "pystr \<Rightarrow> recipe list \<Rightarrow> recipe list" where
  "matching_recipes query_lower [] = []"
| "matching_recipes query_lower (r # rs) =
     (if str_in query_lower (str_lower (name r))
        then r # matching_recipes query_lower rs
      else if ingredient_matches query_lower (ingredients r)
        then r # matching_recipes query_lower rs
      else matching_recipes query_lower rs)"

text \<open>
  The service methods take the recipe list \<open>recipes_db\<close> held by the service object and
  the module-level \<open>settings\<close> as explicit arguments.
\<close>

definition search_recipes ::
  "settings \<Rightarrow> recipe list \<Rightarrow> pystr \<Rightarrow> bool \<Rightarrow> bool \<Rightarrow> bool \<Rightarrow> int \<Rightarrow> recipe list" where
  "search_recipes cfg recipes_db query has_diabetes has_gout has_celiac limit =
     (let query_lower = str_strip (str_lower query);
          matching = matching_recipes query_lower recipes_db;
          filtered = filter_by_diagnosis cfg matching has_diabetes has_gout has_celiac
      in slice_to limit filtered)"

text \<open>
  \<^verbatim>\<open>get_all_recipes\<close>: the optional category is \<open>None\<close> or a string, and
  \<^verbatim>\<open>if category:\<close> is false for \<open>None\<close> and for the empty string.
\<close>

definition get_all_recipes ::
  "settings \<Rightarrow> recipe list \<Rightarrow> bool \<Rightarrow> bool \<Rightarrow> bool \<Rightarrow> pystr option \<Rightarrow> int \<Rightarrow> recipe list" where
  "get_all_recipes cfg recipes_db has_diabetes has_gout has_celiac cat limit =
     (let recipes =
        (case cat of
           None \<Rightarrow> recipes_db
         | Some c \<Rightarrow> if c = [] then recipes_db else filter (\<lambda>r. category r = c) recipes_db)
      in slice_to limit (filter_by_diagnosis cfg recipes has_diabetes has_gout has_celiac))"

fun get_recipe_by_id :: "recipe list \<Rightarrow> pystr \<Rightarrow> recipe option" where
  "get_recipe_by_id [] rid = None"
| "get_recipe_by_id (r # rs) rid =
     (if recipe_id r = rid then Some r else get_recipe_by_id rs rid)"

text \<open>
  \<^verbatim>\<open>get_random_recipe\<close>: \<^verbatim>\<open>random.choice\<close> picks one position of the non-empty list.
  The draw of the random generator is the argument \<open>draw\<close>; position
  \<open>draw mod length filtered\<close> is returned, so every position is reached by some draw.
\<close>

definition get_random_recipe ::
  "settings \<Rightarrow> recipe list \<Rightarrow> nat \<Rightarrow> bool \<Rightarrow> bool \<Rightarrow> bool \<Rightarrow> recipe option" where
  "get_random_recipe cfg recipes_db draw has_diabetes has_gout has_celiac =
     (let filtered = filter_by_diagnosis cfg recipes_db has_diabetes has_gout has_celiac
      in if filtered \<noteq> [] then Some (filtered ! (draw mod length filtered)) else None)"

definition get_recipes_by_category ::
  "settings \<Rightarrow> recipe list \<Rightarrow> pystr \<Rightarrow> bool \<Rightarrow> bool \<Rightarrow> bool \<Rightarrow> recipe list" where
  "get_recipes_by_category cfg recipes_db cat has_diabetes has_gout has_celiac =
     (let category_recipes = filter (\<lambda>r. category r = cat) recipes_db
      in filter_by_diagnosis cfg category_recipes has_diabetes has_gout has_celiac)"

section \<open>The built-in sample catalogue\<close>

subsection \<open>String constants\<close>

definition s_Kurinoe_file :: pystr where \<comment> \<open>Kurinoe file\<close>
  s_Kurinoe_file_def [catalogue]: "s_Kurinoe_file = [1050, 1091, 1088, 1080, 1085, 1086, 1077, 32, 1092, 1080, 1083, 1077]"

definition s_g :: pystr where \<comment> \<open>g\<close>
  s_g_def [catalogue]: "s_g = [1075]"

definition s_Brokkoli :: pystr where \<comment> \<open>Brokkoli\<close>
  s_Brokkoli_def [catalogue]: "s_Brokkoli = [1041, 1088, 1086, 1082, 1082, 1086, 1083, 1080]"

definition s_Olivkovoe_maslo :: pystr where \<comment> \<open>Olivkovoe maslo\<close>
  s_Olivkovoe_maslo_def [catalogue]: "s_Olivkovoe_maslo = [1054, 1083, 1080, 1074, 1082, 1086, 1074, 1086, 1077, 32, 1084, 1072, 1089, 1083, 1086]"

definition s_ml :: pystr where \<comment> \<open>ml\<close>
  s_ml_def [catalogue]: "s_ml = [1084, 1083]"

definition s_Limonnyy_sok :: pystr where \<comment> \<open>Limonnyy sok\<close>
  s_Limonnyy_sok_def [catalogue]: "s_Limonnyy_sok = [1051, 1080, 1084, 1086, 1085, 1085, 1099, 1081, 32, 1089, 1086, 1082]"

definition s_Sol_perets :: pystr where \<comment> \<open>Sol, perets\<close>
  s_Sol_perets_def [catalogue]: "s_Sol_perets = [1057, 1086, 1083, 1100, 44, 32, 1087, 1077, 1088, 1077, 1094]"

definition s_po_vkusu :: pystr where \<comment> \<open>po vkusu\<close>
  s_po_vkusu_def [catalogue]: "s_po_vkusu = [1087, 1086, 32, 1074, 1082, 1091, 1089, 1091]"

definition s_r_001 :: pystr where \<comment> \<open>r_001\<close>
  s_r_001_def [catalogue]: "s_r_001 = [114, 95, 48, 48, 49]"

definition s_Kuritsa_s_brokkoli_na_paru :: pystr where \<comment> \<open>Kuritsa s brokkoli na paru\<close>
  s_Kuritsa_s_brokkoli_na_paru_def [catalogue]: "s_Kuritsa_s_brokkoli_na_paru = [1050, 1091, 1088, 1080, 1094, 1072, 32, 1089, 32, 1073, 1088, 1086, 1082, 1082, 1086, 1083, 1080, 32, 1085, 1072, 32, 1087, 1072, 1088, 1091]"

definition s_main :: pystr where \<comment> \<open>main\<close>
  s_main_def [catalogue]: "s_main = [109, 97, 105, 110]"

definition s_Pomidory_cherri :: pystr where \<comment> \<open>Pomidory cherri\<close>
  s_Pomidory_cherri_def [catalogue]: "s_Pomidory_cherri = [1055, 1086, 1084, 1080, 1076, 1086, 1088, 1099, 32, 1095, 1077, 1088, 1088, 1080]"

definition s_Ogurets :: pystr where \<comment> \<open>Ogurets\<close>
  s_Ogurets_def [catalogue]: "s_Ogurets = [1054, 1075, 1091, 1088, 1077, 1094]"

definition s_sht :: pystr where \<comment> \<open>sht\<close>
  s_sht_def [catalogue]: "s_sht = [1096, 1090]"

definition s_Bolgarskiy_perets :: pystr where \<comment> \<open>Bolgarskiy perets\<close>
  s_Bolgarskiy_perets_def [catalogue]: "s_Bolgarskiy_perets = [1041, 1086, 1083, 1075, 1072, 1088, 1089, 1082, 1080, 1081, 32, 1087, 1077, 1088, 1077, 1094]"

definition s_Krasnyy_luk :: pystr where \<comment> \<open>Krasnyy luk\<close>
  s_Krasnyy_luk_def [catalogue]: "s_Krasnyy_luk = [1050, 1088, 1072, 1089, 1085, 1099, 1081, 32, 1083, 1091, 1082]"

definition s_Masliny :: pystr where \<comment> \<open>Masliny\<close>
  s_Masliny_def [catalogue]: "s_Masliny = [1052, 1072, 1089, 1083, 1080, 1085, 1099]"

definition s_Olivkovoe_maslo_Extra_Virgin :: pystr where \<comment> \<open>Olivkovoe maslo Extra Virgin\<close>
  s_Olivkovoe_maslo_Extra_Virgin_def [catalogue]: "s_Olivkovoe_maslo_Extra_Virgin = [1054, 1083, 1080, 1074, 1082, 1086, 1074, 1086, 1077, 32, 1084, 1072, 1089, 1083, 1086, 32, 69, 120, 116, 114, 97, 32, 86, 105, 114, 103, 105, 110]"

definition s_Oregano_sushyonyy :: pystr where \<comment> \<open>Oregano sushyonyy\<close>
  s_Oregano_sushyonyy_def [catalogue]: "s_Oregano_sushyonyy = [1054, 1088, 1077, 1075, 1072, 1085, 1086, 32, 1089, 1091, 1096, 1105, 1085, 1099, 1081]"

definition s_ch_l :: pystr where \<comment> \<open>ch.l.\<close>
  s_ch_l_def [catalogue]: "s_ch_l = [1095, 46, 1083, 46]"

definition s_r_002 :: pystr where \<comment> \<open>r_002\<close>
  s_r_002_def [catalogue]: "s_r_002 = [114, 95, 48, 48, 50]"

definition s_Salat_Sredizemnomorskiy :: pystr where \<comment> \<open>Salat Sredizemnomorskiy\<close>
  s_Salat_Sredizemnomorskiy_def [catalogue]: "s_Salat_Sredizemnomorskiy = [1057, 1072, 1083, 1072, 1090, 32, 1057, 1088, 1077, 1076, 1080, 1079, 1077, 1084, 1085, 1086, 1084, 1086, 1088, 1089, 1082, 1080, 1081]"

definition s_salad :: pystr where \<comment> \<open>salad\<close>
  s_salad_def [catalogue]: "s_salad = [115, 97, 108, 97, 100]"

definition s_Grechnevaya_krupa :: pystr where \<comment> \<open>Grechnevaya krupa\<close>
  s_Grechnevaya_krupa_def [catalogue]: "s_Grechnevaya_krupa = [1043, 1088, 1077, 1095, 1085, 1077, 1074, 1072, 1103, 32, 1082, 1088, 1091, 1087, 1072]"

definition s_Morkov :: pystr where \<comment> \<open>Morkov\<close>
  s_Morkov_def [catalogue]: "s_Morkov = [1052, 1086, 1088, 1082, 1086, 1074, 1100]"

definition s_Luk_repchatyy :: pystr where \<comment> \<open>Luk repchatyy\<close>
  s_Luk_repchatyy_def [catalogue]: "s_Luk_repchatyy = [1051, 1091, 1082, 32, 1088, 1077, 1087, 1095, 1072, 1090, 1099, 1081]"

definition s_Kabachok :: pystr where \<comment> \<open>Kabachok\<close>
  s_Kabachok_def [catalogue]: "s_Kabachok = [1050, 1072, 1073, 1072, 1095, 1086, 1082]"

definition s_Voda :: pystr where \<comment> \<open>Voda\<close>
  s_Voda_def [catalogue]: "s_Voda = [1042, 1086, 1076, 1072]"

definition s_r_003 :: pystr where \<comment> \<open>r_003\<close>
  s_r_003_def [catalogue]: "s_r_003 = [114, 95, 48, 48, 51]"

definition s_Grechnevaya_kasha_s_ovoshchami :: pystr where \<comment> \<open>Grechnevaya kasha s ovoshchami\<close>
  s_Grechnevaya_kasha_s_ovoshchami_def [catalogue]: "s_Grechnevaya_kasha_s_ovoshchami = [1043, 1088, 1077, 1095, 1085, 1077, 1074, 1072, 1103, 32, 1082, 1072, 1096, 1072, 32, 1089, 32, 1086, 1074, 1086, 1097, 1072, 1084, 1080]"

definition s_Treska_file :: pystr where \<comment> \<open>Treska (file)\<close>
  s_Treska_file_def [catalogue]: "s_Treska_file = [1058, 1088, 1077, 1089, 1082, 1072, 32, 40, 1092, 1080, 1083, 1077, 41]"

definition s_Limon :: pystr where \<comment> \<open>Limon\<close>
  s_Limon_def [catalogue]: "s_Limon = [1051, 1080, 1084, 1086, 1085]"

definition s_Chesnok :: pystr where \<comment> \<open>Chesnok\<close>
  s_Chesnok_def [catalogue]: "s_Chesnok = [1063, 1077, 1089, 1085, 1086, 1082]"

definition s_zubchika :: pystr where \<comment> \<open>zubchika\<close>
  s_zubchika_def [catalogue]: "s_zubchika = [1079, 1091, 1073, 1095, 1080, 1082, 1072]"

definition s_Rozmarin_svezhiy :: pystr where \<comment> \<open>Rozmarin svezhiy\<close>
  s_Rozmarin_svezhiy_def [catalogue]: "s_Rozmarin_svezhiy = [1056, 1086, 1079, 1084, 1072, 1088, 1080, 1085, 32, 1089, 1074, 1077, 1078, 1080, 1081]"

definition s_vetochki :: pystr where \<comment> \<open>vetochki\<close>
  s_vetochki_def [catalogue]: "s_vetochki = [1074, 1077, 1090, 1086, 1095, 1082, 1080]"

definition s_Timyan_svezhiy :: pystr where \<comment> \<open>Timyan svezhiy\<close>
  s_Timyan_svezhiy_def [catalogue]: "s_Timyan_svezhiy = [1058, 1080, 1084, 1100, 1103, 1085, 32, 1089, 1074, 1077, 1078, 1080, 1081]"

definition s_r_004 :: pystr where \<comment> \<open>r_004\<close>
  s_r_004_def [catalogue]: "s_r_004 = [114, 95, 48, 48, 52]"

definition s_Zapechyonnaya_ryba_s_travami :: pystr where \<comment> \<open>Zapechyonnaya ryba s travami\<close>
  s_Zapechyonnaya_ryba_s_travami_def [catalogue]: "s_Zapechyonnaya_ryba_s_travami = [1047, 1072, 1087, 1077, 1095, 1105, 1085, 1085, 1072, 1103, 32, 1088, 1099, 1073, 1072, 32, 1089, 32, 1090, 1088, 1072, 1074, 1072, 1084, 1080]"

definition s_Ovsyanye_khlopya_dolgoy_varki :: pystr where \<comment> \<open>Ovsyanye khlopya (dolgoy varki)\<close>
  s_Ovsyanye_khlopya_dolgoy_varki_def [catalogue]: "s_Ovsyanye_khlopya_dolgoy_varki = [1054, 1074, 1089, 1103, 1085, 1099, 1077, 32, 1093, 1083, 1086, 1087, 1100, 1103, 32, 40, 1076, 1086, 1083, 1075, 1086, 1081, 32, 1074, 1072, 1088, 1082, 1080, 41]"

definition s_Voda_ili_moloko :: pystr where \<comment> \<open>Voda ili moloko\<close>
  s_Voda_ili_moloko_def [catalogue]: "s_Voda_ili_moloko = [1042, 1086, 1076, 1072, 32, 1080, 1083, 1080, 32, 1084, 1086, 1083, 1086, 1082, 1086]"

definition s_Chernika :: pystr where \<comment> \<open>Chernika\<close>
  s_Chernika_def [catalogue]: "s_Chernika = [1063, 1077, 1088, 1085, 1080, 1082, 1072]"

definition s_Malina :: pystr where \<comment> \<open>Malina\<close>
  s_Malina_def [catalogue]: "s_Malina = [1052, 1072, 1083, 1080, 1085, 1072]"

definition s_Gretskie_orekhi :: pystr where \<comment> \<open>Gretskie orekhi\<close>
  s_Gretskie_orekhi_def [catalogue]: "s_Gretskie_orekhi = [1043, 1088, 1077, 1094, 1082, 1080, 1077, 32, 1086, 1088, 1077, 1093, 1080]"

definition s_Myod_optsionalno :: pystr where \<comment> \<open>Myod (optsionalno)\<close>
  s_Myod_optsionalno_def [catalogue]: "s_Myod_optsionalno = [1052, 1105, 1076, 32, 40, 1086, 1087, 1094, 1080, 1086, 1085, 1072, 1083, 1100, 1085, 1086, 41]"

definition s_r_005 :: pystr where \<comment> \<open>r_005\<close>
  s_r_005_def [catalogue]: "s_r_005 = [114, 95, 48, 48, 53]"

definition s_Ovsyanka_s_yagodami_i_orekhami :: pystr where \<comment> \<open>Ovsyanka s yagodami i orekhami\<close>
  s_Ovsyanka_s_yagodami_i_orekhami_def [catalogue]: "s_Ovsyanka_s_yagodami_i_orekhami = [1054, 1074, 1089, 1103, 1085, 1082, 1072, 32, 1089, 32, 1103, 1075, 1086, 1076, 1072, 1084, 1080, 32, 1080, 32, 1086, 1088, 1077, 1093, 1072, 1084, 1080]"

definition s_breakfast :: pystr where \<comment> \<open>breakfast\<close>
  s_breakfast_def [catalogue]: "s_breakfast = [98, 114, 101, 97, 107, 102, 97, 115, 116]"

definition s_Tvorog_5 :: pystr where \<comment> \<open>Tvorog 5%\<close>
  s_Tvorog_5_def [catalogue]: "s_Tvorog_5 = [1058, 1074, 1086, 1088, 1086, 1075, 32, 53, 37]"

definition s_Yaytso :: pystr where \<comment> \<open>Yaytso\<close>
  s_Yaytso_def [catalogue]: "s_Yaytso = [1071, 1081, 1094, 1086]"

definition s_Muka_risovaya :: pystr where \<comment> \<open>Muka risovaya\<close>
  s_Muka_risovaya_def [catalogue]: "s_Muka_risovaya = [1052, 1091, 1082, 1072, 32, 1088, 1080, 1089, 1086, 1074, 1072, 1103]"

definition s_Steviya :: pystr where \<comment> \<open>Steviya\<close>
  s_Steviya_def [catalogue]: "s_Steviya = [1057, 1090, 1077, 1074, 1080, 1103]"

definition s_Vanilin :: pystr where \<comment> \<open>Vanilin\<close>
  s_Vanilin_def [catalogue]: "s_Vanilin = [1042, 1072, 1085, 1080, 1083, 1080, 1085]"

definition s_shchepotka :: pystr where \<comment> \<open>shchepotka\<close>
  s_shchepotka_def [catalogue]: "s_shchepotka = [1097, 1077, 1087, 1086, 1090, 1082, 1072]"

definition s_r_006 :: pystr where \<comment> \<open>r_006\<close>
  s_r_006_def [catalogue]: "s_r_006 = [114, 95, 48, 48, 54]"

definition s_Tvorozhnaya_zapekanka_bez_sakhara :: pystr where \<comment> \<open>Tvorozhnaya zapekanka bez sakhara\<close>
  s_Tvorozhnaya_zapekanka_bez_sakhara_def [catalogue]: "s_Tvorozhnaya_zapekanka_bez_sakhara = [1058, 1074, 1086, 1088, 1086, 1078, 1085, 1072, 1103, 32, 1079, 1072, 1087, 1077, 1082, 1072, 1085, 1082, 1072, 32, 1073, 1077, 1079, 32, 1089, 1072, 1093, 1072, 1088, 1072]"

definition s_dessert :: pystr where \<comment> \<open>dessert\<close>
  s_dessert_def [catalogue]: "s_dessert = [100, 101, 115, 115, 101, 114, 116]"

definition s_Tykva :: pystr where \<comment> \<open>Tykva\<close>
  s_Tykva_def [catalogue]: "s_Tykva = [1058, 1099, 1082, 1074, 1072]"

definition s_Imbir_svezhiy :: pystr where \<comment> \<open>Imbir svezhiy\<close>
  s_Imbir_svezhiy_def [catalogue]: "s_Imbir_svezhiy = [1048, 1084, 1073, 1080, 1088, 1100, 32, 1089, 1074, 1077, 1078, 1080, 1081]"

definition s_Ovoshchnoy_bulon :: pystr where \<comment> \<open>Ovoshchnoy bulon\<close>
  s_Ovoshchnoy_bulon_def [catalogue]: "s_Ovoshchnoy_bulon = [1054, 1074, 1086, 1097, 1085, 1086, 1081, 32, 1073, 1091, 1083, 1100, 1086, 1085]"

definition s_Tykvennye_semechki :: pystr where \<comment> \<open>Tykvennye semechki\<close>
  s_Tykvennye_semechki_def [catalogue]: "s_Tykvennye_semechki = [1058, 1099, 1082, 1074, 1077, 1085, 1085, 1099, 1077, 32, 1089, 1077, 1084, 1077, 1095, 1082, 1080]"

definition s_r_007 :: pystr where \<comment> \<open>r_007\<close>
  s_r_007_def [catalogue]: "s_r_007 = [114, 95, 48, 48, 55]"

definition s_Sup_pyure_iz_tykvy :: pystr where \<comment> \<open>Sup-pyure iz tykvy\<close>
  s_Sup_pyure_iz_tykvy_def [catalogue]: "s_Sup_pyure_iz_tykvy = [1057, 1091, 1087, 45, 1087, 1102, 1088, 1077, 32, 1080, 1079, 32, 1090, 1099, 1082, 1074, 1099]"

definition s_soup :: pystr where \<comment> \<open>soup\<close>
  s_soup_def [catalogue]: "s_soup = [115, 111, 117, 112]"

definition s_Kinoa :: pystr where \<comment> \<open>Kinoa\<close>
  s_Kinoa_def [catalogue]: "s_Kinoa = [1050, 1080, 1085, 1086, 1072]"

definition s_Pomidory :: pystr where \<comment> \<open>Pomidory\<close>
  s_Pomidory_def [catalogue]: "s_Pomidory = [1055, 1086, 1084, 1080, 1076, 1086, 1088, 1099]"

definition s_Petrushka :: pystr where \<comment> \<open>Petrushka\<close>
  s_Petrushka_def [catalogue]: "s_Petrushka = [1055, 1077, 1090, 1088, 1091, 1096, 1082, 1072]"

definition s_r_008 :: pystr where \<comment> \<open>r_008\<close>
  s_r_008_def [catalogue]: "s_r_008 = [114, 95, 48, 48, 56]"

definition s_Kinoa_s_ovoshchami :: pystr where \<comment> \<open>Kinoa s ovoshchami\<close>
  s_Kinoa_s_ovoshchami_def [catalogue]: "s_Kinoa_s_ovoshchami = [1050, 1080, 1085, 1086, 1072, 32, 1089, 32, 1086, 1074, 1086, 1097, 1072, 1084, 1080]"

definition s_Yaytsa :: pystr where \<comment> \<open>Yaytsa\<close>
  s_Yaytsa_def [catalogue]: "s_Yaytsa = [1071, 1081, 1094, 1072]"

definition s_Moloko :: pystr where \<comment> \<open>Moloko\<close>
  s_Moloko_def [catalogue]: "s_Moloko = [1052, 1086, 1083, 1086, 1082, 1086]"

definition s_Syr_tvyordyy :: pystr where \<comment> \<open>Syr tvyordyy\<close>
  s_Syr_tvyordyy_def [catalogue]: "s_Syr_tvyordyy = [1057, 1099, 1088, 32, 1090, 1074, 1105, 1088, 1076, 1099, 1081]"

definition s_Shpinat :: pystr where \<comment> \<open>Shpinat\<close>
  s_Shpinat_def [catalogue]: "s_Shpinat = [1064, 1087, 1080, 1085, 1072, 1090]"

definition s_Ukrop :: pystr where \<comment> \<open>Ukrop\<close>
  s_Ukrop_def [catalogue]: "s_Ukrop = [1059, 1082, 1088, 1086, 1087]"

definition s_r_009 :: pystr where \<comment> \<open>r_009\<close>
  s_r_009_def [catalogue]: "s_r_009 = [114, 95, 48, 48, 57]"

definition s_Omlet_s_zelenyu_i_syrom :: pystr where \<comment> \<open>Omlet s zelenyu i syrom\<close>
  s_Omlet_s_zelenyu_i_syrom_def [catalogue]: "s_Omlet_s_zelenyu_i_syrom = [1054, 1084, 1083, 1077, 1090, 32, 1089, 32, 1079, 1077, 1083, 1077, 1085, 1100, 1102, 32, 1080, 32, 1089, 1099, 1088, 1086, 1084]"

definition s_Tunets_konservirovannyy :: pystr where \<comment> \<open>Tunets konservirovannyy\<close>
  s_Tunets_konservirovannyy_def [catalogue]: "s_Tunets_konservirovannyy = [1058, 1091, 1085, 1077, 1094, 32, 1082, 1086, 1085, 1089, 1077, 1088, 1074, 1080, 1088, 1086, 1074, 1072, 1085, 1085, 1099, 1081]"

definition s_Fasol_belaya_otvarnaya :: pystr where \<comment> \<open>Fasol belaya (otvarnaya)\<close>
  s_Fasol_belaya_otvarnaya_def [catalogue]: "s_Fasol_belaya_otvarnaya = [1060, 1072, 1089, 1086, 1083, 1100, 32, 1073, 1077, 1083, 1072, 1103, 32, 40, 1086, 1090, 1074, 1072, 1088, 1085, 1072, 1103, 41]"

definition s_r_010 :: pystr where \<comment> \<open>r_010\<close>
  s_r_010_def [catalogue]: "s_r_010 = [114, 95, 48, 49, 48]"

definition s_Fasolevyy_salat_s_tuntsom :: pystr where \<comment> \<open>Fasolevyy salat s tuntsom\<close>
  s_Fasolevyy_salat_s_tuntsom_def [catalogue]: "s_Fasolevyy_salat_s_tuntsom = [1060, 1072, 1089, 1086, 1083, 1077, 1074, 1099, 1081, 32, 1089, 1072, 1083, 1072, 1090, 32, 1089, 32, 1090, 1091, 1085, 1094, 1086, 1084]"

definition s_shop_001 :: pystr where \<comment> \<open>shop_001\<close>
  s_shop_001_def [catalogue]: "s_shop_001 = [115, 104, 111, 112, 95, 48, 48, 49]"

definition s_Pyatyorochka :: pystr where \<comment> \<open>Pyatyorochka\<close>
  s_Pyatyorochka_def [catalogue]: "s_Pyatyorochka = [1055, 1103, 1090, 1105, 1088, 1086, 1095, 1082, 1072]"

definition s_X5_Retail_Group :: pystr where \<comment> \<open>X5 Retail Group\<close>
  s_X5_Retail_Group_def [catalogue]: "s_X5_Retail_Group = [88, 53, 32, 82, 101, 116, 97, 105, 108, 32, 71, 114, 111, 117, 112]"

definition s_Moskva_Krasnaya_ploshchad_1 :: pystr where \<comment> \<open>Moskva, Krasnaya ploshchad, 1\<close>
  s_Moskva_Krasnaya_ploshchad_1_def [catalogue]: "s_Moskva_Krasnaya_ploshchad_1 = [1052, 1086, 1089, 1082, 1074, 1072, 44, 32, 1050, 1088, 1072, 1089, 1085, 1072, 1103, 32, 1087, 1083, 1086, 1097, 1072, 1076, 1100, 44, 32, 49]"

definition s_08_00_23_00 :: pystr where \<comment> \<open>08:00-23:00\<close>
  s_08_00_23_00_def [catalogue]: "s_08_00_23_00 = [48, 56, 58, 48, 48, 45, 50, 51, 58, 48, 48]"

definition s_shop_002 :: pystr where \<comment> \<open>shop_002\<close>
  s_shop_002_def [catalogue]: "s_shop_002 = [115, 104, 111, 112, 95, 48, 48, 50]"

definition s_Magnit :: pystr where \<comment> \<open>Magnit\<close>
  s_Magnit_def [catalogue]: "s_Magnit = [1052, 1072, 1075, 1085, 1080, 1090]"

definition s_Moskva_ul_Tverskaya_15 :: pystr where \<comment> \<open>Moskva, ul. Tverskaya, 15\<close>
  s_Moskva_ul_Tverskaya_15_def [catalogue]: "s_Moskva_ul_Tverskaya_15 = [1052, 1086, 1089, 1082, 1074, 1072, 44, 32, 1091, 1083, 46, 32, 1058, 1074, 1077, 1088, 1089, 1082, 1072, 1103, 44, 32, 49, 53]"

definition s_07_00_23_00 :: pystr where \<comment> \<open>07:00-23:00\<close>
  s_07_00_23_00_def [catalogue]: "s_07_00_23_00 = [48, 55, 58, 48, 48, 45, 50, 51, 58, 48, 48]"

definition s_shop_003 :: pystr where \<comment> \<open>shop_003\<close>
  s_shop_003_def [catalogue]: "s_shop_003 = [115, 104, 111, 112, 95, 48, 48, 51]"

definition s_Diksi :: pystr where \<comment> \<open>Diksi\<close>
  s_Diksi_def [catalogue]: "s_Diksi = [1044, 1080, 1082, 1089, 1080]"

definition s_Moskva_Okhotnyy_ryad_2 :: pystr where \<comment> \<open>Moskva, Okhotnyy ryad, 2\<close>
  s_Moskva_Okhotnyy_ryad_2_def [catalogue]: "s_Moskva_Okhotnyy_ryad_2 = [1052, 1086, 1089, 1082, 1074, 1072, 44, 32, 1054, 1093, 1086, 1090, 1085, 1099, 1081, 32, 1088, 1103, 1076, 44, 32, 50]"

definition s_06_00_23_00 :: pystr where \<comment> \<open>06:00-23:00\<close>
  s_06_00_23_00_def [catalogue]: "s_06_00_23_00 = [48, 54, 58, 48, 48, 45, 50, 51, 58, 48, 48]"

definition s_shop_004 :: pystr where \<comment> \<open>shop_004\<close>
  s_shop_004_def [catalogue]: "s_shop_004 = [115, 104, 111, 112, 95, 48, 48, 52]"

definition s_VkusVill :: pystr where \<comment> \<open>VkusVill\<close>
  s_VkusVill_def [catalogue]: "s_VkusVill = [1042, 1082, 1091, 1089, 1042, 1080, 1083, 1083]"

definition s_Moskva_ul_Nikolskaya_10 :: pystr where \<comment> \<open>Moskva, ul. Nikolskaya, 10\<close>
  s_Moskva_ul_Nikolskaya_10_def [catalogue]: "s_Moskva_ul_Nikolskaya_10 = [1052, 1086, 1089, 1082, 1074, 1072, 44, 32, 1091, 1083, 46, 32, 1053, 1080, 1082, 1086, 1083, 1100, 1089, 1082, 1072, 1103, 44, 32, 49, 48]"

definition s_08_00_22_00 :: pystr where \<comment> \<open>08:00-22:00\<close>
  s_08_00_22_00_def [catalogue]: "s_08_00_22_00 = [48, 56, 58, 48, 48, 45, 50, 50, 58, 48, 48]"

definition s_shop_005 :: pystr where \<comment> \<open>shop_005\<close>
  s_shop_005_def [catalogue]: "s_shop_005 = [115, 104, 111, 112, 95, 48, 48, 53]"

definition s_Perekryostok :: pystr where \<comment> \<open>Perekryostok\<close>
  s_Perekryostok_def [catalogue]: "s_Perekryostok = [1055, 1077, 1088, 1077, 1082, 1088, 1105, 1089, 1090, 1086, 1082]"

definition s_Moskva_ul_Petrovka_5 :: pystr where \<comment> \<open>Moskva, ul. Petrovka, 5\<close>
  s_Moskva_ul_Petrovka_5_def [catalogue]: "s_Moskva_ul_Petrovka_5 = [1052, 1086, 1089, 1082, 1074, 1072, 44, 32, 1091, 1083, 46, 32, 1055, 1077, 1090, 1088, 1086, 1074, 1082, 1072, 44, 32, 53]"

definition s_07_00_24_00 :: pystr where \<comment> \<open>07:00-24:00\<close>
  s_07_00_24_00_def [catalogue]: "s_07_00_24_00 = [48, 55, 58, 48, 48, 45, 50, 52, 58, 48, 48]"

definition s_Yaytsa_10_sht :: pystr where \<comment> \<open>Yaytsa (10 sht)\<close>
  s_Yaytsa_10_sht_def [catalogue]: "s_Yaytsa_10_sht = [1071, 1081, 1094, 1072, 32, 40, 49, 48, 32, 1096, 1090, 41]"

definition s_Ovsyanye_khlopya :: pystr where \<comment> \<open>Ovsyanye khlopya\<close>
  s_Ovsyanye_khlopya_def [catalogue]: "s_Ovsyanye_khlopya = [1054, 1074, 1089, 1103, 1085, 1099, 1077, 32, 1093, 1083, 1086, 1087, 1100, 1103]"

definition s_kuritsa :: pystr where \<comment> \<open>kuritsa\<close>
  s_kuritsa_def [catalogue]: "s_kuritsa = [1082, 1091, 1088, 1080, 1094, 1072]"

subsection \<open>\<^verbatim>\<open>RECIPES_DATABASE\<close>\<close>

definition r_001 :: recipe where
  r_001_def [catalogue]: "r_001 = \<lparr>
     recipe_id = s_r_001,
     name = s_Kuritsa_s_brokkoli_na_paru,
     glycemic_index = 35,
     purines = 120,
     suitable_for_diabetes = True,
     suitable_for_gout = False,
     suitable_for_celiac = True,
     category = s_main,
     ingredients =
      [\<lparr>ing_name = s_Kurinoe_file, amount = 300, ing_unit = s_g\<rparr>,
       \<lparr>ing_name = s_Brokkoli, amount = 200, ing_unit = s_g\<rparr>,
       \<lparr>ing_name = s_Olivkovoe_maslo, amount = 10, ing_unit = s_ml\<rparr>,
       \<lparr>ing_name = s_Limonnyy_sok, amount = 15, ing_unit = s_ml\<rparr>,
       \<lparr>ing_name = s_Sol_perets, amount = 1, ing_unit = s_po_vkusu\<rparr>]\<rparr>"

definition r_002 :: recipe where
  r_002_def [catalogue]: "r_002 = \<lparr>
     recipe_id = s_r_002,
     name = s_Salat_Sredizemnomorskiy,
     glycemic_index = 20,
     purines = 15,
     suitable_for_diabetes = True,
     suitable_for_gout = True,
     suitable_for_celiac = True,
     category = s_salad,
     ingredients =
      [\<lparr>ing_name = s_Pomidory_cherri, amount = 150, ing_unit = s_g\<rparr>,
       \<lparr>ing_name = s_Ogurets, amount = 1, ing_unit = s_sht\<rparr>,
       \<lparr>ing_name = s_Bolgarskiy_perets, amount = 1, ing_unit = s_sht\<rparr>,
       \<lparr>ing_name = s_Krasnyy_luk, amount = 50, ing_unit = s_g\<rparr>,
       \<lparr>ing_name = s_Masliny, amount = 50, ing_unit = s_g\<rparr>,
       \<lparr>ing_name = s_Olivkovoe_maslo_Extra_Virgin, amount = 30, ing_unit = s_ml\<rparr>,
       \<lparr>ing_name = s_Limonnyy_sok, amount = 15, ing_unit = s_ml\<rparr>,
       \<lparr>ing_name = s_Oregano_sushyonyy, amount = 1, ing_unit = s_ch_l\<rparr>]\<rparr>"

definition r_003 :: recipe where
  r_003_def [catalogue]: "r_003 = \<lparr>
     recipe_id = s_r_003,
     name = s_Grechnevaya_kasha_s_ovoshchami,
     glycemic_index = 40,
     purines = 25,
     suitable_for_diabetes = True,
     suitable_for_gout = True,
     suitable_for_celiac = True,
     category = s_main,
     ingredients =
      [\<lparr>ing_name = s_Grechnevaya_krupa, amount = 150, ing_unit = s_g\<rparr>,
       \<lparr>ing_name = s_Morkov, amount = 1, ing_unit = s_sht\<rparr>,
       \<lparr>ing_name = s_Luk_repchatyy, amount = 1, ing_unit = s_sht\<rparr>,
       \<lparr>ing_name = s_Kabachok, amount = 150, ing_unit = s_g\<rparr>,
       \<lparr>ing_name = s_Olivkovoe_maslo, amount = 15, ing_unit = s_ml\<rparr>,
       \<lparr>ing_name = s_Voda, amount = 300, ing_unit = s_ml\<rparr>]\<rparr>"

definition r_004 :: recipe where
  r_004_def [catalogue]: "r_004 = \<lparr>
     recipe_id = s_r_004,
     name = s_Zapechyonnaya_ryba_s_travami,
     glycemic_index = 0,
     purines = 80,
     suitable_for_diabetes = True,
     suitable_for_gout = True,
     suitable_for_celiac = True,
     category = s_main,
     ingredients =
      [\<lparr>ing_name = s_Treska_file, amount = 400, ing_unit = s_g\<rparr>,
       \<lparr>ing_name = s_Limon, amount = 1, ing_unit = s_sht\<rparr>,
       \<lparr>ing_name = s_Chesnok, amount = 2, ing_unit = s_zubchika\<rparr>,
       \<lparr>ing_name = s_Rozmarin_svezhiy, amount = 2, ing_unit = s_vetochki\<rparr>,
       \<lparr>ing_name = s_Timyan_svezhiy, amount = 3, ing_unit = s_vetochki\<rparr>,
       \<lparr>ing_name = s_Olivkovoe_maslo, amount = 20, ing_unit = s_ml\<rparr>]\<rparr>"

definition r_005 :: recipe where
  r_005_def [catalogue]: "r_005 = \<lparr>
     recipe_id = s_r_005,
     name = s_Ovsyanka_s_yagodami_i_orekhami,
     glycemic_index = 45,
     purines = 20,
     suitable_for_diabetes = True,
     suitable_for_gout = True,
     suitable_for_celiac = False,
     category = s_breakfast,
     ingredients =
      [\<lparr>ing_name = s_Ovsyanye_khlopya_dolgoy_varki, amount = 50, ing_unit = s_g\<rparr>,
       \<lparr>ing_name = s_Voda_ili_moloko, amount = 200, ing_unit = s_ml\<rparr>,
       \<lparr>ing_name = s_Chernika, amount = 50, ing_unit = s_g\<rparr>,
       \<lparr>ing_name = s_Malina, amount = 50, ing_unit = s_g\<rparr>,
       \<lparr>ing_name = s_Gretskie_orekhi, amount = 20, ing_unit = s_g\<rparr>,
       \<lparr>ing_name = s_Myod_optsionalno, amount = 5, ing_unit = s_ml\<rparr>]\<rparr>"

definition r_006 :: recipe where
  r_006_def [catalogue]: "r_006 = \<lparr>
     recipe_id = s_r_006,
     name = s_Tvorozhnaya_zapekanka_bez_sakhara,
     glycemic_index = 30,
     purines = 10,
     suitable_for_diabetes = True,
     suitable_for_gout = True,
     suitable_for_celiac = False,
     category = s_dessert,
     ingredients =
      [\<lparr>ing_name = s_Tvorog_5, amount = 500, ing_unit = s_g\<rparr>,
       \<lparr>ing_name = s_Yaytso, amount = 2, ing_unit = s_sht\<rparr>,
       \<lparr>ing_name = s_Muka_risovaya, amount = 30, ing_unit = s_g\<rparr>,
       \<lparr>ing_name = s_Steviya, amount = 1, ing_unit = s_ch_l\<rparr>,
       \<lparr>ing_name = s_Vanilin, amount = 1, ing_unit = s_shchepotka\<rparr>]\<rparr>"

definition r_007 :: recipe where
  r_007_def [catalogue]: "r_007 = \<lparr>
     recipe_id = s_r_007,
     name = s_Sup_pyure_iz_tykvy,
     glycemic_index = 65,
     purines = 10,
     suitable_for_diabetes = True,
     suitable_for_gout = True,
     suitable_for_celiac = True,
     category = s_soup,
     ingredients =
      [\<lparr>ing_name = s_Tykva, amount = 500, ing_unit = s_g\<rparr>,
       \<lparr>ing_name = s_Luk_repchatyy, amount = 1, ing_unit = s_sht\<rparr>,
       \<lparr>ing_name = s_Imbir_svezhiy, amount = 10, ing_unit = s_g\<rparr>,
       \<lparr>ing_name = s_Ovoshchnoy_bulon, amount = 500, ing_unit = s_ml\<rparr>,
       \<lparr>ing_name = s_Olivkovoe_maslo, amount = 15, ing_unit = s_ml\<rparr>,
       \<lparr>ing_name = s_Tykvennye_semechki, amount = 20, ing_unit = s_g\<rparr>]\<rparr>"

definition r_008 :: recipe where
  r_008_def [catalogue]: "r_008 = \<lparr>
     recipe_id = s_r_008,
     name = s_Kinoa_s_ovoshchami,
     glycemic_index = 35,
     purines = 20,
     suitable_for_diabetes = True,
     suitable_for_gout = True,
     suitable_for_celiac = True,
     category = s_main,
     ingredients =
      [\<lparr>ing_name = s_Kinoa, amount = 150, ing_unit = s_g\<rparr>,
       \<lparr>ing_name = s_Bolgarskiy_perets, amount = 1, ing_unit = s_sht\<rparr>,
       \<lparr>ing_name = s_Pomidory, amount = 150, ing_unit = s_g\<rparr>,
       \<lparr>ing_name = s_Ogurets, amount = 1, ing_unit = s_sht\<rparr>,
       \<lparr>ing_name = s_Petrushka, amount = 30, ing_unit = s_g\<rparr>,
       \<lparr>ing_name = s_Limonnyy_sok, amount = 30, ing_unit = s_ml\<rparr>,
       \<lparr>ing_name = s_Olivkovoe_maslo, amount = 20, ing_unit = s_ml\<rparr>]\<rparr>"

definition r_009 :: recipe where
  r_009_def [catalogue]: "r_009 = \<lparr>
     recipe_id = s_r_009,
     name = s_Omlet_s_zelenyu_i_syrom,
     glycemic_index = 0,
     purines = 15,
     suitable_for_diabetes = True,
     suitable_for_gout = True,
     suitable_for_celiac = True,
     category = s_breakfast,
     ingredients =
      [\<lparr>ing_name = s_Yaytsa, amount = 2, ing_unit = s_sht\<rparr>,
       \<lparr>ing_name = s_Moloko, amount = 30, ing_unit = s_ml\<rparr>,
       \<lparr>ing_name = s_Syr_tvyordyy, amount = 30, ing_unit = s_g\<rparr>,
       \<lparr>ing_name = s_Shpinat, amount = 30, ing_unit = s_g\<rparr>,
       \<lparr>ing_name = s_Ukrop, amount = 10, ing_unit = s_g\<rparr>,
       \<lparr>ing_name = s_Olivkovoe_maslo, amount = 5, ing_unit = s_ml\<rparr>]\<rparr>"

definition r_010 :: recipe where
  r_010_def [catalogue]: "r_010 = \<lparr>
     recipe_id = s_r_010,
     name = s_Fasolevyy_salat_s_tuntsom,
     glycemic_index = 25,
     purines = 150,
     suitable_for_diabetes = True,
     suitable_for_gout = False,
     suitable_for_celiac = True,
     category = s_salad,
     ingredients =
      [\<lparr>ing_name = s_Tunets_konservirovannyy, amount = 150, ing_unit = s_g\<rparr>,
       \<lparr>ing_name = s_Fasol_belaya_otvarnaya, amount = 200, ing_unit = s_g\<rparr>,
       \<lparr>ing_name = s_Krasnyy_luk, amount = 50, ing_unit = s_g\<rparr>,
       \<lparr>ing_name = s_Pomidory_cherri, amount = 100, ing_unit = s_g\<rparr>,
       \<lparr>ing_name = s_Petrushka, amount = 20, ing_unit = s_g\<rparr>,
       \<lparr>ing_name = s_Olivkovoe_maslo, amount = 20, ing_unit = s_ml\<rparr>,
       \<lparr>ing_name = s_Limonnyy_sok, amount = 15, ing_unit = s_ml\<rparr>]\<rparr>"

definition RECIPES_DATABASE :: "recipe list" where
  RECIPES_DATABASE_def [catalogue]: "RECIPES_DATABASE = [r_001, r_002, r_003, r_004, r_005, r_006, r_007, r_008, r_009, r_010]"

section \<open>Shops and prices (\<^verbatim>\<open>services/shop_service.py\<close>)\<close>

text \<open>
  A shop dictionary is a record; its keys \<^verbatim>\<open>id\<close>, \<^verbatim>\<open>name\<close>, \<^verbatim>\<open>chain\<close>, \<^verbatim>\<open>latitude\<close>,
  \<^verbatim>\<open>longitude\<close>, \<^verbatim>\<open>address\<close> and \<^verbatim>\<open>rating\<close> are the fields prefixed with \<open>shop_\<close>.
  Prices, totals and ratings are real numbers: the catalogue's prices are integer
  literals, on which the comparisons and sums of the code are exact.
\<close>

record shop =
  shop_id :: pystr
  shop_name :: pystr
  shop_chain :: pystr
  shop_latitude :: real
  shop_longitude :: real
  shop_address :: pystr
  shop_rating :: real
  working_hours :: pystr
  has_delivery :: bool

text \<open>
  A Python dictionary is an association list in insertion order: iteration
  (\<^verbatim>\<open>.items()\<close>) follows the list, \<^verbatim>\<open>d[k] = v\<close> is \<^const>\<open>AList.update\<close> (an existing key
  keeps its position), and \<^verbatim>\<open>d.get(k, default)\<close> is \<open>dict_get\<close>.
\<close>

type_synonym price_table = "(pystr \<times> real) list"

definition dict_get :: "('k \<times> 'v) list \<Rightarrow> 'k \<Rightarrow> 'v \<Rightarrow> 'v" where
  "dict_get d k dflt = (case map_of d k of None \<Rightarrow> dflt | Some v \<Rightarrow> v)"

text \<open>\<^verbatim>\<open>ShopService._find_product_price\<close>: its first loop (exact match) ...\<close>

fun exact_match :: "pystr \<Rightarrow> price_table \<Rightarrow> real option" where
  "exact_match product_lower [] = None"
| "exact_match product_lower ((key, value) # rest) =
     (if str_lower key = product_lower then Some value
      else exact_match product_lower rest)"

text \<open>... its second loop (partial match) ...\<close>

fun partial_match :: "pystr \<Rightarrow> price_table \<Rightarrow> real option" where
  "partial_match product_lower [] = None"
| "partial_match product_lower ((key, value) # rest) =
     (if str_in product_lower (str_lower key) \<or> str_in (str_lower key) product_lower
        then Some value
      else partial_match product_lower rest)"

text \<open>... and the method itself; \<open>None\<close> is Python's \<^verbatim>\<open>None\<close>.\<close>

definition find_product_price :: "price_table \<Rightarrow> pystr \<Rightarrow> real option" where
  "find_product_price shop_prices product_name =
     (let product_lower = str_lower product_name
      in case exact_match product_lower shop_prices of
           Some value \<Rightarrow> Some value
         | None \<Rightarrow> partial_match product_lower shop_prices)"

text \<open>The entries \<^verbatim>\<open>compare_prices\<close> returns.\<close>

record price_entry =
  entry_shop_id :: pystr
  entry_shop_name :: pystr
  entry_shop_address :: pystr
  price :: real
  entry_rating :: real

definition price_entry_of :: "shop \<Rightarrow> real \<Rightarrow> price_entry" where
  "price_entry_of s p = \<lparr>
     entry_shop_id = shop_id s,
     entry_shop_name = shop_name s,
     entry_shop_address = shop_address s,
     price = p,
     entry_rating = shop_rating s\<rparr>"

text \<open>The loop of \<^verbatim>\<open>compare_prices\<close> over the shops, collecting \<^verbatim>\<open>results\<close>.\<close>

fun shop_price_entries ::
  "shop list \<Rightarrow> (pystr \<times> price_table) list \<Rightarrow> pystr \<Rightarrow> price_entry list" where
  "shop_price_entries [] prices_db product_name = []"
| "shop_price_entries (s # ss) prices_db product_name =
     (case find_product_price (dict_get prices_db (shop_id s) []) product_name of
        None \<Rightarrow> shop_price_entries ss prices_db product_name
      | Some p \<Rightarrow> price_entry_of s p # shop_price_entries ss prices_db product_name)"

text \<open>
  \<^verbatim>\<open>list.sort(key=...)\<close> is a stable sort; it is modelled by \<^const>\<open>sort_key\<close>, the stable
  insertion sort of the list library.
\<close>

definition compare_prices ::
  "shop list \<Rightarrow> (pystr \<times> price_table) list \<Rightarrow> pystr \<Rightarrow> price_entry list" where
  "compare_prices shops_db prices_db product_name =
     sort_key price (shop_price_entries shops_db prices_db product_name)"

text \<open>The values of the dictionary \<^verbatim>\<open>get_prices_for_recipe\<close> returns.\<close>

record item_price =
  item_name :: pystr
  item_price :: real

record recipe_prices =
  rp_shop_name :: pystr
  rp_shop_address :: pystr
  total_price :: real
  found_items :: nat
  total_items :: nat
  items :: "item_price list"
  rp_rating :: real

text \<open>The inner loop over the ingredients, with its three running variables.\<close>

fun price_ingredients ::
  "price_table \<Rightarrow> ingredient list \<Rightarrow> real \<times> nat \<times> item_price list
    \<Rightarrow> real \<times> nat \<times> item_price list" where
  "price_ingredients shop_prices [] acc = acc"
| "price_ingredients shop_prices (i # is) (total_sum, found_count, items_prices) =
     (case find_product_price shop_prices (ing_name i) of
        None \<Rightarrow> price_ingredients shop_prices is (total_sum, found_count, items_prices)
      | Some p \<Rightarrow>
          price_ingredients shop_prices is
            (total_sum + p, found_count + 1,
             items_prices @ [\<lparr>item_name = ing_name i, item_price = p\<rparr>]))"

text \<open>The outer loop over the shops, filling the dictionary \<^verbatim>\<open>prices_by_shop\<close>.\<close>

fun prices_by_shop_loop ::
  "shop list \<Rightarrow> (pystr \<times> price_table) list \<Rightarrow> ingredient list
    \<Rightarrow> (pystr \<times> recipe_prices) list \<Rightarrow> (pystr \<times> recipe_prices) list" where
  "prices_by_shop_loop [] prices_db recipe_ingredients prices_by_shop = prices_by_shop"
| "prices_by_shop_loop (s # ss) prices_db recipe_ingredients prices_by_shop =
     (case price_ingredients (dict_get prices_db (shop_id s) []) recipe_ingredients (0, 0, [])
      of (total_sum, found_count, items_prices) \<Rightarrow>
        prices_by_shop_loop ss prices_db recipe_ingredients
          (AList.update (shop_id s)
             \<lparr>rp_shop_name = shop_name s,
              rp_shop_address = shop_address s,
              total_price = total_sum,
              found_items = found_count,
              total_items = length recipe_ingredients,
              items = items_prices,
              rp_rating = shop_rating s\<rparr>
             prices_by_shop))"

definition get_prices_for_recipe ::
  "shop list \<Rightarrow> (pystr \<times> price_table) list \<Rightarrow> ingredient list
    \<Rightarrow> (pystr \<times> recipe_prices) list" where
  "get_prices_for_recipe shops_db prices_db recipe_ingredients =
     prices_by_shop_loop shops_db prices_db recipe_ingredients []"

text \<open>
  The sort key of \<^verbatim>\<open>find_cheapest_shop_for_recipe\<close>: the total price when it is positive,
  and \<^verbatim>\<open>float("inf")\<close>, here \<open>None\<close>, otherwise. \<open>key_less\<close> is \<open><\<close> on such keys.
\<close>

definition total_price_key :: "pystr \<times> recipe_prices \<Rightarrow> real option" where
  "total_price_key x = (if total_price (snd x) > 0 then Some (total_price (snd x)) else None)"

fun key_less :: "real option \<Rightarrow> real option \<Rightarrow> bool" where
  "key_less (Some a) (Some b) = (a < b)"
| "key_less (Some a) None = True"
| "key_less None b = False"

text \<open>
  \<^verbatim>\<open>min(iterable, key=...)\<close> on a non-empty iterable: the current minimum is replaced only
  by an item with a strictly smaller key, so the first of several minimal items wins.
\<close>

fun min_by :: "('a \<Rightarrow> real option) \<Rightarrow> 'a \<Rightarrow> 'a list \<Rightarrow> 'a" where
  "min_by key best [] = best"
| "min_by key best (x # xs) =
     (if key_less (key x) (key best) then min_by key x xs else min_by key best xs)"

text \<open>
  \<^verbatim>\<open>find_cheapest_shop_for_recipe\<close>. The returned dictionary is \<open>shop_data\<close> with the key
  \<^verbatim>\<open>shop_id\<close> added; it is the pair of the two.
\<close>

definition find_cheapest_shop_for_recipe ::
  "shop list \<Rightarrow> (pystr \<times> price_table) list \<Rightarrow> ingredient list
    \<Rightarrow> (pystr \<times> recipe_prices) option" where
  "find_cheapest_shop_for_recipe shops_db prices_db recipe_ingredients =
     (case get_prices_for_recipe shops_db prices_db recipe_ingredients of
        [] \<Rightarrow> None
      | x # xs \<Rightarrow> Some (min_by total_price_key x xs))"

text \<open>
  \<^verbatim>\<open>find_nearby_shops\<close>. The distance is computed by \<^verbatim>\<open>_calculate_haversine_distance\<close> in
  binary floating point (\<^verbatim>\<open>math.sin\<close>, \<^verbatim>\<open>math.cos\<close>, \<^verbatim>\<open>math.atan2\<close>, \<^verbatim>\<open>math.sqrt\<close>) and rounded
  by \<^verbatim>\<open>round(distance, 2)\<close>. Neither is arithmetic over the reals, so both functions are
  arguments here, \<open>haversine\<close> and \<open>round2\<close>: what follows holds for whatever numbers
  they return, as long as these can be compared (no NaN).
\<close>

record shop_with_distance =
  nearby_shop :: shop
  distance_km :: real

fun shops_within_radius ::
  "(real \<Rightarrow> real \<Rightarrow> real \<Rightarrow> real \<Rightarrow> real) \<Rightarrow> (real \<Rightarrow> real) \<Rightarrow> shop list
    \<Rightarrow> real \<Rightarrow> real \<Rightarrow> real \<Rightarrow> shop_with_distance list" where
  "shops_within_radius haversine round2 [] lat lon radius_km = []"
| "shops_within_radius haversine round2 (s # ss) lat lon radius_km =
     (let distance = haversine lat lon (shop_latitude s) (shop_longitude s)
      in if distance \<le> radius_km
         then \<lparr>nearby_shop = s, distance_km = round2 distance\<rparr>
              # shops_within_radius haversine round2 ss lat lon radius_km
         else shops_within_radius haversine round2 ss lat lon radius_km)"

definition find_nearby_shops ::
  "(real \<Rightarrow> real \<Rightarrow> real \<Rightarrow> real \<Rightarrow> real) \<Rightarrow> (real \<Rightarrow> real) \<Rightarrow> shop list
    \<Rightarrow> real \<Rightarrow> real \<Rightarrow> real \<Rightarrow> int \<Rightarrow> shop_with_distance list" where
  "find_nearby_shops haversine round2 shops_db lat lon radius_km limit =
     slice_to limit
       (sort_key distance_km (shops_within_radius haversine round2 shops_db lat lon radius_km))"

subsection \<open>\<^verbatim>\<open>MOCK_SHOPS\<close> and \<^verbatim>\<open>MOCK_PRICES\<close>\<close>

definition shop_001 :: shop where
  shop_001_def [catalogue]: "shop_001 = \<lparr>
     shop_id = s_shop_001,
     shop_name = s_Pyatyorochka,
     shop_chain = s_X5_Retail_Group,
     shop_latitude = 278779 / 5000,
     shop_longitude = 376173 / 10000,
     shop_address = s_Moskva_Krasnaya_ploshchad_1,
     shop_rating = 47 / 10,
     working_hours = s_08_00_23_00,
     has_delivery = True\<rparr>"

definition shop_002 :: shop where
  shop_002_def [catalogue]: "shop_002 = \<lparr>
     shop_id = s_shop_002,
     shop_name = s_Magnit,
     shop_chain = s_Magnit,
     shop_latitude = 223 / 4,
     shop_longitude = 1881 / 50,
     shop_address = s_Moskva_ul_Tverskaya_15,
     shop_rating = 9 / 2,
     working_hours = s_07_00_23_00,
     has_delivery = True\<rparr>"

definition shop_003 :: shop where
  shop_003_def [catalogue]: "shop_003 = \<lparr>
     shop_id = s_shop_003,
     shop_name = s_Diksi,
     shop_chain = s_Diksi,
     shop_latitude = 1394 / 25,
     shop_longitude = 3761 / 100,
     shop_address = s_Moskva_Okhotnyy_ryad_2,
     shop_rating = 43 / 10,
     working_hours = s_06_00_23_00,
     has_delivery = False\<rparr>"

definition shop_004 :: shop where
  shop_004_def [catalogue]: "shop_004 = \<lparr>
     shop_id = s_shop_004,
     shop_name = s_VkusVill,
     shop_chain = s_VkusVill,
     shop_latitude = 6969 / 125,
     shop_longitude = 7523 / 200,
     shop_address = s_Moskva_ul_Nikolskaya_10,
     shop_rating = 24 / 5,
     working_hours = s_08_00_22_00,
     has_delivery = True\<rparr>"

definition shop_005 :: shop where
  shop_005_def [catalogue]: "shop_005 = \<lparr>
     shop_id = s_shop_005,
     shop_name = s_Perekryostok,
     shop_chain = s_X5_Retail_Group,
     shop_latitude = 27879 / 500,
     shop_longitude = 18811 / 500,
     shop_address = s_Moskva_ul_Petrovka_5,
     shop_rating = 23 / 5,
     working_hours = s_07_00_24_00,
     has_delivery = True\<rparr>"

definition MOCK_SHOPS :: "shop list" where
  MOCK_SHOPS_def [catalogue]: "MOCK_SHOPS = [shop_001, shop_002, shop_003, shop_004, shop_005]"

definition prices_shop_001 :: "(pystr \<times> real) list" where
  prices_shop_001_def [catalogue]: "prices_shop_001 =
     [(s_Kurinoe_file, 289),
      (s_Brokkoli, 149),
      (s_Grechnevaya_krupa, 89),
      (s_Olivkovoe_maslo, 549),
      (s_Tvorog_5, 89),
      (s_Yaytsa_10_sht, 99),
      (s_Ovsyanye_khlopya, 79),
      (s_Treska_file, 449),
      (s_Pomidory_cherri, 199),
      (s_Kinoa, 299)]"

definition prices_shop_002 :: "(pystr \<times> real) list" where
  prices_shop_002_def [catalogue]: "prices_shop_002 =
     [(s_Kurinoe_file, 279),
      (s_Brokkoli, 159),
      (s_Grechnevaya_krupa, 79),
      (s_Olivkovoe_maslo, 529),
      (s_Tvorog_5, 79),
      (s_Yaytsa_10_sht, 89),
      (s_Ovsyanye_khlopya, 69),
      (s_Treska_file, 429),
      (s_Pomidory_cherri, 189),
      (s_Kinoa, 319)]"

definition prices_shop_003 :: "(pystr \<times> real) list" where
  prices_shop_003_def [catalogue]: "prices_shop_003 =
     [(s_Kurinoe_file, 299),
      (s_Brokkoli, 139),
      (s_Grechnevaya_krupa, 85),
      (s_Olivkovoe_maslo, 569),
      (s_Tvorog_5, 85),
      (s_Yaytsa_10_sht, 95),
      (s_Ovsyanye_khlopya, 75),
      (s_Treska_file, 459),
      (s_Pomidory_cherri, 179),
      (s_Kinoa, 289)]"

definition prices_shop_004 :: "(pystr \<times> real) list" where
  prices_shop_004_def [catalogue]: "prices_shop_004 =
     [(s_Kurinoe_file, 329),
      (s_Brokkoli, 169),
      (s_Grechnevaya_krupa, 99),
      (s_Olivkovoe_maslo, 599),
      (s_Tvorog_5, 99),
      (s_Yaytsa_10_sht, 129),
      (s_Ovsyanye_khlopya, 89),
      (s_Treska_file, 499),
      (s_Pomidory_cherri, 229),
      (s_Kinoa, 349)]"

definition prices_shop_005 :: "(pystr \<times> real) list" where
  prices_shop_005_def [catalogue]: "prices_shop_005 =
     [(s_Kurinoe_file, 309),
      (s_Brokkoli, 159),
      (s_Grechnevaya_krupa, 95),
      (s_Olivkovoe_maslo, 579),
      (s_Tvorog_5, 95),
      (s_Yaytsa_10_sht, 109),
      (s_Ovsyanye_khlopya, 85),
      (s_Treska_file, 479),
      (s_Pomidory_cherri, 209),
      (s_Kinoa, 329)]"

definition MOCK_PRICES :: "(pystr \<times> (pystr \<times> real) list) list" where
  MOCK_PRICES_def [catalogue]: "MOCK_PRICES =
     [(s_shop_001, prices_shop_001),
      (s_shop_002, prices_shop_002),
      (s_shop_003, prices_shop_003),
      (s_shop_004, prices_shop_004),
      (s_shop_005, prices_shop_005)]"


section \<open>Notions of the specification\<close>

text \<open>
  The following definitions follow the words of the specification, not the code; the
  theorems below compare the code with them.
\<close>

text \<open>A recipe satisfies all active medical constraints.\<close>

definition meets_constraints :: "settings \<Rightarrow> bool \<Rightarrow> bool \<Rightarrow> bool \<Rightarrow> recipe \<Rightarrow> bool" where
  "meets_constraints cfg has_diabetes has_gout has_celiac r =
     ((has_diabetes \<longrightarrow> glycemic_index r \<le> max_glycemic_index cfg)
      \<and> (has_gout \<longrightarrow> purines r \<le> 100)
      \<and> (has_celiac \<longrightarrow> suitable_for_celiac r))"

text \<open>
  The query occurs in the lowercased name of the recipe or of one of its ingredients.
\<close>

definition query_matches :: "pystr \<Rightarrow> recipe \<Rightarrow> bool" where
  "query_matches q r =
     (sublist q (str_lower (name r))
      \<or> (\<exists>i \<in> set (ingredients r). sublist q (str_lower (ing_name i))))"


section \<open>Auxiliary facts\<close>

lemma str_in_sublist: "str_in xs ys = sublist xs ys"
  by (induction ys) (auto simp: sublist_Cons_right)

lemma slice_to_nonneg: "0 \<le> n \<Longrightarrow> slice_to n xs = take (nat n) xs"
  by (simp add: slice_to_def)

lemma slice_to_neg: "n < 0 \<Longrightarrow> slice_to n xs = take (length xs - nat (- n)) xs"
  by (simp add: slice_to_def)

lemma slice_to_take: "\<exists>k. slice_to n xs = take k xs"
  by (auto simp: slice_to_def)

lemma set_slice_to: "set (slice_to n xs) \<subseteq> set xs"
  by (auto simp: slice_to_def dest: in_set_takeD)

lemma slice_to_map: "slice_to n (map f xs) = map f (slice_to n xs)"
  by (simp add: slice_to_def take_map)

lemma filter_by_diagnosis_filter:
  "filter_by_diagnosis cfg rs d g c = filter (meets_constraints cfg d g c) rs"
  by (induction rs) (auto simp: meets_constraints_def)

lemma ingredient_matches_iff:
  "ingredient_matches q is = (\<exists>i \<in> set is. sublist q (str_lower (ing_name i)))"
  by (induction "is") (auto simp: str_in_sublist)

lemma matching_recipes_filter:
  "matching_recipes q rs = filter (query_matches q) rs"
  by (induction rs) (auto simp: query_matches_def str_in_sublist ingredient_matches_iff)

lemma search_recipes_filter:
  "search_recipes cfg db query d g c limit =
     slice_to limit (filter (meets_constraints cfg d g c)
       (filter (query_matches (str_strip (str_lower query))) db))"
  by (simp add: search_recipes_def filter_by_diagnosis_filter matching_recipes_filter)

lemma get_recipes_by_category_filter:
  "get_recipes_by_category cfg db cat d g c =
     filter (meets_constraints cfg d g c) (filter (\<lambda>r. category r = cat) db)"
  by (simp add: get_recipes_by_category_def filter_by_diagnosis_filter)

lemma get_all_recipes_filter:
  "get_all_recipes cfg db d g c cat limit =
     slice_to limit (filter (meets_constraints cfg d g c)
       (case cat of None \<Rightarrow> db
        | Some k \<Rightarrow> if k = [] then db else filter (\<lambda>r. category r = k) db))"
  by (simp add: get_all_recipes_def filter_by_diagnosis_filter)

lemma meets_constraints_slice:
  "r \<in> set (slice_to n (filter (meets_constraints cfg d g c) xs)) \<Longrightarrow>
     meets_constraints cfg d g c r"
proof -
  assume "r \<in> set (slice_to n (filter (meets_constraints cfg d g c) xs))"
  with set_slice_to have "r \<in> set (filter (meets_constraints cfg d g c) xs)"
    by (rule subsetD)
  then show ?thesis by simp
qed

lemma get_random_recipe_member:
  assumes "get_random_recipe cfg db draw d g c = Some r"
  shows "r \<in> set (filter (meets_constraints cfg d g c) db)"
proof -
  let ?f = "filter (meets_constraints cfg d g c) db"
  have ne: "?f \<noteq> []"
  proof
    assume "?f = []"
    then have "get_random_recipe cfg db draw d g c = None"
      by (simp add: get_random_recipe_def filter_by_diagnosis_filter)
    with assms show False by simp
  qed
  then have "get_random_recipe cfg db draw d g c = Some (?f ! (draw mod length ?f))"
    by (simp add: get_random_recipe_def filter_by_diagnosis_filter Let_def)
  with assms have r: "r = ?f ! (draw mod length ?f)" by simp
  from ne have "draw mod length ?f < length ?f" by simp
  then have "?f ! (draw mod length ?f) \<in> set ?f" by (rule nth_mem)
  with r show ?thesis by simp
qed

lemma subseq_filter_implies:
  "(\<And>x. P x \<Longrightarrow> Q x) \<Longrightarrow> subseq (filter P xs) (filter Q xs)"
  by (induction xs) (simp_all add: list_emb_Cons)

lemma set_filter_implies:
  "(\<And>x. P x \<Longrightarrow> Q x) \<Longrightarrow> set (filter P xs) \<subseteq> set (filter Q xs)"
  by auto

lemma meets_constraints_more_flags:
  "meets_constraints cfg True g c r \<Longrightarrow> meets_constraints cfg d g c r"
  "meets_constraints cfg d True c r \<Longrightarrow> meets_constraints cfg d g c r"
  "meets_constraints cfg d g True r \<Longrightarrow> meets_constraints cfg d g c r"
  by (simp_all add: meets_constraints_def)


section \<open>The diagnosis filter\<close>

text \<open>
  Claim C1. Whatever the recipe list and the three flags, every recipe returned by the
  diagnosis filter, and hence by search, by the category listing, by get-all and by the
  random selection (whatever the draw), satisfies all active constraints: glycemic index at
  most \<open>max_glycemic_index\<close> (55 by default) under diabetes, purines at most 100 under
  gout, the celiac flag set under celiac. With no flag active nothing is removed.
\<close>

theorem filter_by_diagnosis_sound:
  "(\<forall>r \<in> set (filter_by_diagnosis cfg rs has_diabetes has_gout has_celiac).
       meets_constraints cfg has_diabetes has_gout has_celiac r)
   \<and> (\<forall>r \<in> set (search_recipes cfg rs query has_diabetes has_gout has_celiac limit).
       meets_constraints cfg has_diabetes has_gout has_celiac r)
   \<and> (\<forall>r \<in> set (get_recipes_by_category cfg rs cat has_diabetes has_gout has_celiac).
       meets_constraints cfg has_diabetes has_gout has_celiac r)
   \<and> (\<forall>r \<in> set (get_all_recipes cfg rs has_diabetes has_gout has_celiac cat_opt limit).
       meets_constraints cfg has_diabetes has_gout has_celiac r)
   \<and> (\<forall>r. get_random_recipe cfg rs draw has_diabetes has_gout has_celiac = Some r
        \<longrightarrow> meets_constraints cfg has_diabetes has_gout has_celiac r)
   \<and> filter_by_diagnosis cfg rs False False False = rs
   \<and> max_glycemic_index default_settings = 55"
proof -
  let ?ok = "meets_constraints cfg has_diabetes has_gout has_celiac"
  have a: "\<forall>r \<in> set (filter_by_diagnosis cfg rs has_diabetes has_gout has_celiac). ?ok r"
    by (simp add: filter_by_diagnosis_filter)
  have b: "\<forall>r \<in> set (search_recipes cfg rs query has_diabetes has_gout has_celiac limit). ?ok r"
    unfolding search_recipes_filter by (rule ballI) (erule meets_constraints_slice)
  have c: "\<forall>r \<in> set (get_recipes_by_category cfg rs cat has_diabetes has_gout has_celiac). ?ok r"
    by (simp add: get_recipes_by_category_filter)
  have d: "\<forall>r \<in> set (get_all_recipes cfg rs has_diabetes has_gout has_celiac cat_opt limit). ?ok r"
    unfolding get_all_recipes_filter by (rule ballI) (erule meets_constraints_slice)
  have e: "\<forall>r. get_random_recipe cfg rs draw has_diabetes has_gout has_celiac = Some r
        \<longrightarrow> ?ok r"
  proof (intro allI impI)
    fix r
    assume "get_random_recipe cfg rs draw has_diabetes has_gout has_celiac = Some r"
    then have "r \<in> set (filter ?ok rs)" by (rule get_random_recipe_member)
    then show "?ok r" by simp
  qed
  have f: "filter_by_diagnosis cfg rs False False False = rs"
    by (simp add: filter_by_diagnosis_filter meets_constraints_def)
  have g: "max_glycemic_index default_settings = 55"
    by (simp add: default_settings_def)
  show ?thesis
    by (intro conjI) (rule a b c d e f g)+
qed


text \<open>
  Claim C3. The filter is monotonic: switching one more flag on (the other two as they
  are) gives a result whose recipes all occur in the result without it; it is even a
  subsequence of that result, so the order is kept as well.
\<close>

theorem filter_by_diagnosis_monotonic:
  "set (filter_by_diagnosis cfg rs True has_gout has_celiac)
      \<subseteq> set (filter_by_diagnosis cfg rs has_diabetes has_gout has_celiac)
   \<and> set (filter_by_diagnosis cfg rs has_diabetes True has_celiac)
      \<subseteq> set (filter_by_diagnosis cfg rs has_diabetes has_gout has_celiac)
   \<and> set (filter_by_diagnosis cfg rs has_diabetes has_gout True)
      \<subseteq> set (filter_by_diagnosis cfg rs has_diabetes has_gout has_celiac)
   \<and> subseq (filter_by_diagnosis cfg rs True has_gout has_celiac)
        (filter_by_diagnosis cfg rs has_diabetes has_gout has_celiac)
   \<and> subseq (filter_by_diagnosis cfg rs has_diabetes True has_celiac)
        (filter_by_diagnosis cfg rs has_diabetes has_gout has_celiac)
   \<and> subseq (filter_by_diagnosis cfg rs has_diabetes has_gout True)
        (filter_by_diagnosis cfg rs has_diabetes has_gout has_celiac)"
  unfolding filter_by_diagnosis_filter
  by (intro conjI set_filter_implies subseq_filter_implies)
     (erule meets_constraints_more_flags)+


end
